theory Spec2Isabelle
  imports Main "HOL-Library.Word"
begin

section \<open>The C shim \<^verbatim>\<open>sqlite3_extensions.h\<close>\<close>

text \<open>
  The header declares one type and one inline function:
  \<^verbatim>\<open>
  typedef void(*errorLogCallback)(void *pArg, int iErrCode, const char *zMsg);

  static inline void registerErrorLogCallback(errorLogCallback callback) {
      sqlite3_config(SQLITE_CONFIG_LOG, callback, 0);
  }
  \<close>
  \<open>sqlite3_config\<close> and \<open>SQLITE_CONFIG_LOG\<close> come from \<^verbatim>\<open>sqlite3.h\<close>, the header of the
  storage engine, which is not part of the repository.
\<close>

subsection \<open>The declared C types\<close>

datatype c_type =
    C_void
  | C_int
  | C_char
  | C_const c_type
  | C_ptr c_type
  | C_fun c_type "c_type list"

text \<open>\<^verbatim>\<open>typedef void(*errorLogCallback)(void *pArg, int iErrCode, const char *zMsg);\<close>\<close>

definition errorLogCallback_type :: c_type where
  "errorLogCallback_type =
     C_ptr (C_fun C_void [C_ptr C_void, C_int, C_ptr (C_const C_char)])"

record c_signature =
  returns :: c_type
  parameters :: "c_type list"

text \<open>\<^verbatim>\<open>static inline void registerErrorLogCallback(errorLogCallback callback)\<close>\<close>

definition registerErrorLogCallback_signature :: c_signature where
  "registerErrorLogCallback_signature =
     \<lparr>returns = C_void, parameters = [errorLogCallback_type]\<rparr>"

subsection \<open>Values\<close>

text \<open>
  A C \<open>int\<close> is a 32-bit word; a \<open>void *\<close> is an address, \<open>0\<close> the null pointer; a
  \<open>const char *\<close> is the characters found from the pointer on (for a well-formed C
  string: its text, the terminating NUL, and whatever lies behind it in the buffer).
\<close>

type_synonym c_int = "32 word"
type_synonym pointer = nat
type_synonym c_string = "char list"

text \<open>
  A value of type \<open>errorLogCallback\<close> is the null function pointer or a function of
  three arguments that returns nothing: all it does is change the host's state \<open>'h\<close>.
\<close>

datatype 'h errorLogCallback =
    NULL
  | Callback "pointer \<Rightarrow> c_int \<Rightarrow> c_string \<Rightarrow> 'h \<Rightarrow> 'h"

text \<open>The values that travel through the variadic part of \<open>sqlite3_config(int op, ...)\<close>.\<close>

datatype 'h c_value =
    IntVal c_int
  | PtrVal pointer
  | FnPtr "'h errorLogCallback"

subsection \<open>The engine's configuration primitive\<close>

text \<open>
  \<open>int sqlite3_config(int op, ...)\<close> belongs to the engine. It is a parameter of the
  model: any function from the configuration key, the variadic arguments, the engine's
  state \<open>'e\<close> and the host's state \<open>'h\<close> to a status code, the engine's new state and
  the host's new state. The host's state is in its reach because the engine may call into
  the host while it configures, for one by running a callback that was registered before.
\<close>

type_synonym ('h, 'e) sqlite3_config =
  "c_int \<Rightarrow> 'h c_value list \<Rightarrow> 'e \<Rightarrow> 'h \<Rightarrow> c_int \<times> 'e \<times> 'h"

text \<open>
  Modelled from the spec: the "fixed enum value" of the logging configuration key and the
  engine's "OK" sentinel. Their numbers are those of \<^verbatim>\<open>sqlite3.h\<close>
  (\<open>SQLITE_CONFIG_LOG\<close> 16, \<open>SQLITE_OK\<close> 0, \<open>SQLITE_MISUSE\<close> 21).
\<close>

definition SQLITE_CONFIG_LOG :: c_int where
  "SQLITE_CONFIG_LOG = 16"

definition SQLITE_OK :: c_int where
  "SQLITE_OK = 0"

definition SQLITE_MISUSE :: c_int where
  "SQLITE_MISUSE = 21"

text \<open>
  What a caller of the shim can see change: the engine's state, the list of calls made
  into the engine (each with its key and its variadic arguments, oldest first), and the
  rest of the process, the host's state.
\<close>

record ('h, 'e) world =
  engine :: 'e
  engine_calls :: "(c_int \<times> 'h c_value list) list"
  host :: 'h

text \<open>One call of \<open>sqlite3_config\<close>: the engine runs on its own state and the host's, the
  call is recorded, the status comes back.\<close>

definition call_sqlite3_config ::
  "('h, 'e) sqlite3_config \<Rightarrow> c_int \<Rightarrow> 'h c_value list \<Rightarrow> ('h, 'e) world \<Rightarrow> c_int \<times> ('h, 'e) world"
where
  "call_sqlite3_config sqlite3_config op args w =
     (let (rc, e', h') = sqlite3_config op args (engine w) (host w)
      in (rc, w\<lparr>engine := e', engine_calls := engine_calls w @ [(op, args)], host := h'\<rparr>))"

subsection \<open>The shim\<close>

text \<open>
  \<^verbatim>\<open>sqlite3_config(SQLITE_CONFIG_LOG, callback, 0);\<close> as an expression statement: the
  status that the call returns is dropped, and the function, of return type \<open>void\<close>,
  gives its caller the unit value.
\<close>

definition registerErrorLogCallback ::
  "('h, 'e) sqlite3_config \<Rightarrow> 'h errorLogCallback \<Rightarrow> ('h, 'e) world \<Rightarrow> unit \<times> ('h, 'e) world"
where
  "registerErrorLogCallback sqlite3_config callback w =
     (let (rc, w') = call_sqlite3_config sqlite3_config SQLITE_CONFIG_LOG [FnPtr callback, IntVal 0] w
      in ((), w'))"

subsection \<open>Sequences of calls\<close>

text \<open>The shim called once per callback of a list, in order.\<close>

fun register_each ::
  "('h, 'e) sqlite3_config \<Rightarrow> 'h errorLogCallback list \<Rightarrow> ('h, 'e) world \<Rightarrow> ('h, 'e) world"
where
  "register_each sqlite3_config [] w = w"
| "register_each sqlite3_config (c # cs) w =
     register_each sqlite3_config cs (snd (registerErrorLogCallback sqlite3_config c w))"

section \<open>Engines to run the shim against\<close>

text \<open>
  Modelled from the spec: the engine is an external library, "treated as an opaque library
  exposing a C ABI". Stand-ins for it follow. The first answers every configuration
  call with a fixed status, keeps no state and leaves the host alone.
\<close>

definition engine_returning :: "c_int \<Rightarrow> ('h, unit) sqlite3_config" where
  "engine_returning rc op args e h = (rc, e, h)"

text \<open>
  An engine that answers a configuration call from its own state alone, and the
  configuration primitive it makes: one that does not call into the host.
\<close>

type_synonym ('h, 'e) status_engine = "c_int \<Rightarrow> 'h c_value list \<Rightarrow> 'e \<Rightarrow> c_int \<times> 'e"

definition without_callbacks :: "('h, 'e) status_engine \<Rightarrow> ('h, 'e) sqlite3_config" where
  "without_callbacks step op args e h = (let (rc, e') = step op args e in (rc, e', h))"

text \<open>
  Modelled from the spec: the simulated engine of the spec's testable properties. It
  "accepts a single global callback and a single opaque context pointer", refuses
  configuration once it is "initialized past the point configuration is accepted", and
  reports a log event by invoking the registered callback with the context, the code and
  the message.
\<close>

record 'h sim_engine =
  isInit :: bool
  xLog :: "'h errorLogCallback"
  pLogArg :: pointer

definition SQLITE_ERROR :: c_int where
  "SQLITE_ERROR = 1"

fun sim_config_log :: "'h c_value list \<Rightarrow> 'h sim_engine \<Rightarrow> c_int \<times> 'h sim_engine" where
  "sim_config_log [FnPtr f, IntVal i] e = (SQLITE_OK, e\<lparr>xLog := f, pLogArg := unat i\<rparr>)"
| "sim_config_log [FnPtr f, PtrVal a] e = (SQLITE_OK, e\<lparr>xLog := f, pLogArg := a\<rparr>)"
| "sim_config_log args e = (SQLITE_ERROR, e)"

definition sim_config :: "('h, 'h sim_engine) status_engine" where
  "sim_config op args e =
     (if isInit e then (SQLITE_MISUSE, e)
      else if op = SQLITE_CONFIG_LOG then sim_config_log args e
      else (SQLITE_ERROR, e))"

text \<open>A call from the engine into host code: the function and the three arguments.\<close>

record 'h invocation =
  callee :: "pointer \<Rightarrow> c_int \<Rightarrow> c_string \<Rightarrow> 'h \<Rightarrow> 'h"
  pArg :: pointer
  iErrCode :: c_int
  zMsg :: c_string

definition run_invocation :: "'h invocation \<Rightarrow> 'h \<Rightarrow> 'h" where
  "run_invocation i h = callee i (pArg i) (iErrCode i) (zMsg i) h"

text \<open>The calls into host code that the simulated engine makes for one log event.\<close>

definition sim_log :: "'h sim_engine \<Rightarrow> c_int \<Rightarrow> c_string \<Rightarrow> 'h invocation list" where
  "sim_log e c m =
     (case xLog e of
        NULL \<Rightarrow> []
      | Callback f \<Rightarrow> [\<lparr>callee = f, pArg = pLogArg e, iErrCode = c, zMsg = m\<rparr>])"

text \<open>
  A simulated engine that calls into the host while it configures: once initialised it
  refuses the call and reports the refusal, a log event with the code \<open>SQLITE_MISUSE\<close>
  and the given message, to the callback it holds.
\<close>

definition sim_config_reporting :: "c_string \<Rightarrow> ('h, 'h sim_engine) sqlite3_config" where
  "sim_config_reporting msg op args e h =
     (if isInit e then (SQLITE_MISUSE, e, fold run_invocation (sim_log e SQLITE_MISUSE msg) h)
      else without_callbacks sim_config op args e h)"

text \<open>The simulated engine before its first use, and a world with no call made yet.\<close>

definition sim_engine0 :: "'h sim_engine" where
  "sim_engine0 = \<lparr>isInit = False, xLog = NULL, pLogArg = 0\<rparr>"

definition world0 :: "'e \<Rightarrow> 'h \<Rightarrow> ('h, 'e) world" where
  "world0 e h = \<lparr>engine = e, engine_calls = [], host = h\<rparr>"

text \<open>A C string literal: the text and the terminating NUL.\<close>

definition NUL :: char where
  "NUL = CHR 0x00"

definition c_str :: "string \<Rightarrow> c_string" where
  "c_str s = s @ [NUL]"

text \<open>A host callback for tests: it appends its number and what it was called with to
  the host's state, a list.\<close>

definition recorder :: "nat \<Rightarrow> (nat \<times> pointer \<times> c_int \<times> c_string) list errorLogCallback" where
  "recorder n = Callback (\<lambda>a c m h. h @ [(n, a, c, m)])"

section \<open>The ABI of the logging configuration key\<close>

text \<open>
  Modelled from the spec: "callback: function pointer with signature (context: pointer,
  code: int, message: pointer) -> void". At the ABI a parameter is a pointer or an
  integer, whatever it points to.
\<close>

datatype abi_kind = Abi_void | Abi_int | Abi_pointer | Abi_other

fun abi_kind_of :: "c_type \<Rightarrow> abi_kind" where
  "abi_kind_of C_void = Abi_void"
| "abi_kind_of C_int = Abi_int"
| "abi_kind_of (C_ptr t) = Abi_pointer"
| "abi_kind_of (C_const t) = abi_kind_of t"
| "abi_kind_of t = Abi_other"

record abi_signature =
  abi_parameters :: "abi_kind list"
  abi_result :: abi_kind

fun function_pointer_abi :: "c_type \<Rightarrow> abi_signature option" where
  "function_pointer_abi (C_ptr (C_fun r ps)) =
     Some \<lparr>abi_parameters = map abi_kind_of ps, abi_result = abi_kind_of r\<rparr>"
| "function_pointer_abi t = None"

definition log_callback_abi :: abi_signature where
  "log_callback_abi =
     \<lparr>abi_parameters = [Abi_pointer, Abi_int, Abi_pointer], abi_result = Abi_void\<rparr>"

section \<open>The bridge that the spec builds on the registration primitive\<close>

text \<open>
  The spec describes two components above the shim, EngineLogBridge (\<open>register\<close>,
  \<open>unregister\<close>) and LogEventChannel (\<open>trampolineEntry\<close>), with their data. The source
  has none of them: of the bridge it holds only the native registration call. Every
  definition of this section is therefore written from the spec's sentences, which its
  comment quotes.
\<close>

text \<open>Modelled from the spec: the error taxonomy, "AlreadyRegistered ...,
  AlreadyUnregistered ..., EngineRejected ..., HandlerPanic"; the source has no error type.\<close>

datatype BridgeError = AlreadyRegistered | AlreadyUnregistered | EngineRejected | HandlerPanic

text \<open>Modelled from the spec: "LogEvent - value type: code: integer ..., message: owned
  text"; the source has no event type.\<close>

record LogEvent =
  code :: c_int
  message :: string

text \<open>Modelled from the spec: a handler may "raise/throw during invocation". A call into
  host logic returns, or is left by a failure that the host raised; either way with the
  state reached. The source has no handlers.\<close>

datatype 'a completion = Returned 'a | Raised 'a

fun state_of :: "'a completion \<Rightarrow> 'a" where
  "state_of (Returned a) = a"
| "state_of (Raised a) = a"

text \<open>Modelled from the spec: "Handler - a host-supplied function/closure of signature
  (LogEvent) -> ()", working on the host's state \<open>'u\<close>; and the RegistrationHandle, a token
  "representing an active registration", here the number under which it was issued.\<close>

type_synonym 'u Handler = "LogEvent \<Rightarrow> 'u \<Rightarrow> 'u completion"

type_synonym RegistrationHandle = nat

text \<open>
  Modelled from the spec: the host side of the process, which the source does not have.
  \<open>handler_slot\<close> is the "process-wide storage" with the live handle and its handler;
  \<open>handles_issued\<close> numbers the handles; \<open>diagnostic_sink\<close> is the "secondary,
  engine-independent channel"; \<open>handler_calls\<close> lists the handler invocations made so
  far, each with the handle it was registered under and the event it received; \<open>user\<close>
  is the state the handlers work on.
\<close>

record 'u process =
  handler_slot :: "(RegistrationHandle \<times> 'u Handler) option"
  handles_issued :: nat
  handler_calls :: "(RegistrationHandle \<times> LogEvent) list"
  diagnostic_sink :: "BridgeError list"
  user :: 'u

text \<open>
  Modelled from the spec: "Converts rawMessage to an owned text value by copying", absent
  from the source. The copy takes the characters up to the terminating NUL, however many
  they are (or up to the end of the buffer if no NUL is there).
\<close>

fun copy_c_string :: "c_string \<Rightarrow> string" where
  "copy_c_string [] = []"
| "copy_c_string (c # cs) = (if c = NUL then [] else c # copy_c_string cs)"

text \<open>
  Modelled from the spec: the dispatch inside the trampoline, absent from the source:
  "looks up the currently-registered Handler via process-wide storage, and invokes it
  synchronously"; "If no Handler is currently registered when invoked, the event is
  dropped silently".
\<close>

definition deliver :: "LogEvent \<Rightarrow> 'u process \<Rightarrow> 'u process completion" where
  "deliver ev p =
     (case handler_slot p of
        None \<Rightarrow> Returned p
      | Some (k, handler) \<Rightarrow>
          (case handler ev (user p) of
             Returned u \<Rightarrow> Returned (p\<lparr>handler_calls := handler_calls p @ [(k, ev)], user := u\<rparr>)
           | Raised u \<Rightarrow> Raised (p\<lparr>handler_calls := handler_calls p @ [(k, ev)], user := u\<rparr>)))"

text \<open>
  Modelled from the spec: \<open>trampolineEntry(rawCode, rawMessage)\<close>, absent from the
  source: "constructs LogEvent{code: rawCode, message: copy}"; "any failure raised by the
  Handler is caught at this boundary and reported through a secondary, engine-independent
  channel".
\<close>

definition trampolineEntry :: "c_int \<Rightarrow> c_string \<Rightarrow> 'u process \<Rightarrow> 'u process completion" where
  "trampolineEntry rawCode rawMessage p =
     (case deliver \<lparr>code = rawCode, message = copy_c_string rawMessage\<rparr> p of
        Returned p' \<Rightarrow> Returned p'
      | Raised p' \<Rightarrow> Returned (p'\<lparr>diagnostic_sink := diagnostic_sink p' @ [HandlerPanic]\<rparr>))"

text \<open>Modelled from the spec: the "fixed, non-capturing trampoline function" whose address
  is "registered with the engine", as a value of the source's callback type.\<close>

definition trampoline :: "'u process errorLogCallback" where
  "trampoline = Callback (\<lambda>a c m p. state_of (trampolineEntry c m p))"

text \<open>
  Modelled from the spec: \<open>register(handler)\<close>, absent from the source: "Fails with
  AlreadyRegistered if a RegistrationHandle already exists. Fails with EngineRejected if
  the underlying engine configuration call returns a non-success status"; the call has the
  "fixed 3-argument shape (config key, trampoline function pointer, opaque context = 0
  ...)". The engine of the bridge is the spec's external collaborator, which "returns an
  engine status code": it answers the configuration call from its own state and does not
  call into the host meanwhile. (\<open>register\<close> calls it only while the slot is empty, when a
  run of the trampoline would leave the host as it is.)
\<close>

definition register ::
  "('u process, 'e) status_engine \<Rightarrow> 'u Handler \<Rightarrow> ('u process, 'e) world \<Rightarrow>
     (BridgeError + RegistrationHandle) \<times> ('u process, 'e) world"
where
  "register sqlite3_config handler w =
     (case handler_slot (host w) of
        Some live \<Rightarrow> (Inl AlreadyRegistered, w)
      | None \<Rightarrow>
          (let (rc, w') = call_sqlite3_config (without_callbacks sqlite3_config)
                            SQLITE_CONFIG_LOG [FnPtr trampoline, IntVal 0] w
           in if rc \<noteq> SQLITE_OK then (Inl EngineRejected, w')
              else (Inr (handles_issued (host w')),
                    w'\<lparr>host := (host w')\<lparr>handler_slot := Some (handles_issued (host w'), handler),
                                          handles_issued := Suc (handles_issued (host w'))\<rparr>\<rparr>)))"

text \<open>
  Modelled from the spec: \<open>unregister(handle)\<close>, absent from the source: "fail with
  AlreadyUnregistered on reuse"; the slot "is cleared before unregister returns"; with
  "exactly one call into the engine's variadic configuration primitive per
  register/unregister pair", made by \<open>register\<close>, \<open>unregister\<close> makes none. A handle is
  consumed when the slot no longer holds it.
\<close>

definition unregister ::
  "RegistrationHandle \<Rightarrow> ('u process, 'e) world \<Rightarrow> (BridgeError + unit) \<times> ('u process, 'e) world"
where
  "unregister k w =
     (case handler_slot (host w) of
        None \<Rightarrow> (Inl AlreadyUnregistered, w)
      | Some (live, handler) \<Rightarrow>
          (if live = k then (Inr (), w\<lparr>host := (host w)\<lparr>handler_slot := None\<rparr>\<rparr>)
           else (Inl AlreadyUnregistered, w)))"

text \<open>Modelled from the spec: "sequences of register/unregister calls" and trampoline
  invocations: the host registers or unregisters, the engine invokes the trampoline.\<close>

datatype 'u bridge_op =
    Register "'u Handler"
  | Unregister RegistrationHandle
  | Invoke c_int c_string

fun bridge_step ::
  "('u process, 'e) status_engine \<Rightarrow> 'u bridge_op \<Rightarrow> ('u process, 'e) world \<Rightarrow> ('u process, 'e) world"
where
  "bridge_step sqlite3_config (Register handler) w = snd (register sqlite3_config handler w)"
| "bridge_step sqlite3_config (Unregister k) w = snd (unregister k w)"
| "bridge_step sqlite3_config (Invoke c m) w = w\<lparr>host := state_of (trampolineEntry c m (host w))\<rparr>"

fun bridge_run ::
  "('u process, 'e) status_engine \<Rightarrow> 'u bridge_op list \<Rightarrow> ('u process, 'e) world \<Rightarrow> ('u process, 'e) world"
where
  "bridge_run sqlite3_config [] w = w"
| "bridge_run sqlite3_config (x # xs) w = bridge_run sqlite3_config xs (bridge_step sqlite3_config x w)"

text \<open>Modelled from the spec: "any subsequent simulated trampoline invocation": the
  trampoline invoked once per event of a list, in order, with what each invocation
  gives back.\<close>

fun invoke_each :: "(c_int \<times> c_string) list \<Rightarrow> 'u process \<Rightarrow> 'u process completion list" where
  "invoke_each [] p = []"
| "invoke_each ((c, m) # evs) p =
     trampolineEntry c m p # invoke_each evs (state_of (trampolineEntry c m p))"

text \<open>Modelled from the spec: the process before any registration, with no handle
  issued, no handler stored and nothing reported.\<close>

definition process0 :: "'u \<Rightarrow> 'u process" where
  "process0 u =
     \<lparr>handler_slot = None, handles_issued = 0, handler_calls = [], diagnostic_sink = [], user = u\<rparr>"

text \<open>
  Modelled from the spec: predicates on the process of the bridge. The handle in use is
  among those issued; a handle is retired once it has been issued and every handle the
  slot may hold is a later one; \<open>calls_for k\<close> are the events of the handler invocations
  made under handle \<open>k\<close>.
\<close>

definition handles_ok :: "'u process \<Rightarrow> bool" where
  "handles_ok p = (case handler_slot p of None \<Rightarrow> True | Some (l, handler) \<Rightarrow> l < handles_issued p)"

definition retired :: "RegistrationHandle \<Rightarrow> 'u process \<Rightarrow> bool" where
  "retired k p =
     (k < handles_issued p \<and> (case handler_slot p of None \<Rightarrow> True | Some (l, handler) \<Rightarrow> k < l))"

definition calls_for :: "RegistrationHandle \<Rightarrow> 'u process \<Rightarrow> LogEvent list" where
  "calls_for k p = map snd (filter (\<lambda>x. fst x = k) (handler_calls p))"

text \<open>Modelled from the spec: a handler for tests, one "that raises/throws during
  invocation" on the code it is told to fail on, and otherwise appends the event's
  message to the host's state.\<close>

definition failing_on :: "c_int \<Rightarrow> string list Handler" where
  "failing_on bad ev u = (if code ev = bad then Raised u else Returned (u @ [message ev]))"

section \<open>Properties of the shim\<close>

subsection \<open>What one call does\<close>

text \<open>
  C1. For every callback \<open>c\<close>, engine and world, \<open>registerErrorLogCallback c\<close> adds exactly
  one call to the calls made into the engine: \<open>sqlite3_config\<close> with the key
  \<open>SQLITE_CONFIG_LOG\<close> and two variadic arguments, the function pointer \<open>c\<close> as it was
  given and the integer 0, three arguments in all. The engine's state and the host's
  state afterwards are exactly what this one call leaves, and the caller gets the unit
  value: the shim does nothing besides the call.
\<close>

theorem registerErrorLogCallback_one_config_call:
  "engine_calls (snd (registerErrorLogCallback sqlite3_config c w)) =
     engine_calls w @ [(SQLITE_CONFIG_LOG, [FnPtr c, IntVal 0])]
   \<and> (engine (snd (registerErrorLogCallback sqlite3_config c w)),
       host (snd (registerErrorLogCallback sqlite3_config c w))) =
       snd (sqlite3_config SQLITE_CONFIG_LOG [FnPtr c, IntVal 0] (engine w) (host w))
   \<and> fst (registerErrorLogCallback sqlite3_config c w) = ()"
  by (simp add: registerErrorLogCallback_def call_sqlite3_config_def split: prod.split)

text \<open>
  What the call leaves may include work of the host's own code. On the initialised
  engine that reports a refused call, the shim called with callback 2 makes the engine
  run callback 1, registered before: the host's state changes during the shim's call,
  through the engine.
\<close>

lemma engine_call_may_run_registered_callback:
  "host (snd (registerErrorLogCallback (sim_config_reporting (c_str ''misuse'')) (recorder 2)
           \<lparr>engine = \<lparr>isInit = True, xLog = recorder 1, pLogArg = 0\<rparr>,
            engine_calls = [], host = []\<rparr>)) =
     [(1, 0, SQLITE_MISUSE, c_str ''misuse'')]
   \<and> engine_calls (snd (registerErrorLogCallback (sim_config_reporting (c_str ''misuse'')) (recorder 2)
           \<lparr>engine = \<lparr>isInit = True, xLog = recorder 1, pLogArg = 0\<rparr>,
            engine_calls = [], host = []\<rparr>)) =
     [(SQLITE_CONFIG_LOG, [FnPtr (recorder 2), IntVal 0])]"
  by (simp add: registerErrorLogCallback_def call_sqlite3_config_def sim_config_reporting_def
      sim_log_def recorder_def run_invocation_def)

subsection \<open>The status of the engine\<close>

text \<open>
  C2, as the code has it. \<open>registerErrorLogCallback\<close> returns \<open>void\<close> and drops the status
  that \<open>sqlite3_config\<close> returns: two engines that leave the same engine state and the
  same host state give the caller of the shim the same result and the same world,
  whatever status each of them returned. No failure is surfaced, and none can be told
  from success.
\<close>

theorem registerErrorLogCallback_status_dropped:
  assumes "snd (cfg1 SQLITE_CONFIG_LOG [FnPtr c, IntVal 0] (engine w) (host w)) =
           snd (cfg2 SQLITE_CONFIG_LOG [FnPtr c, IntVal 0] (engine w) (host w))"
  shows "registerErrorLogCallback cfg1 c w = registerErrorLogCallback cfg2 c w"
  using assms
  by (auto simp: registerErrorLogCallback_def call_sqlite3_config_def split: prod.split)

text \<open>An engine that answers \<open>SQLITE_ERROR\<close> and one that answers \<open>SQLITE_OK\<close>, with
  the null callback.\<close>

theorem registerErrorLogCallback_status_dropped_witness:
  "fst (engine_returning SQLITE_ERROR SQLITE_CONFIG_LOG [FnPtr NULL, IntVal 0] () ()) \<noteq> SQLITE_OK
   \<and> fst (engine_returning SQLITE_OK SQLITE_CONFIG_LOG [FnPtr NULL, IntVal 0] () ()) = SQLITE_OK
   \<and> registerErrorLogCallback (engine_returning SQLITE_ERROR) NULL (world0 () ()) =
     registerErrorLogCallback (engine_returning SQLITE_OK) NULL (world0 () ())"
  using registerErrorLogCallback_status_dropped
    [of "engine_returning SQLITE_ERROR" NULL "world0 () ()" "engine_returning SQLITE_OK"]
  by (simp add: engine_returning_def SQLITE_ERROR_def SQLITE_OK_def world0_def)

text \<open>
  C2 as stated fails: the engine answers \<open>SQLITE_MISUSE\<close>, which is not the OK sentinel,
  and the registration returns to its caller exactly what it returns when the engine
  answers \<open>SQLITE_OK\<close>.
\<close>

theorem rejected_registration_not_surfaced:
  "fst (call_sqlite3_config (engine_returning SQLITE_MISUSE) SQLITE_CONFIG_LOG
          [FnPtr (recorder 1), IntVal 0] (world0 () [])) = SQLITE_MISUSE
   \<and> SQLITE_MISUSE \<noteq> SQLITE_OK
   \<and> fst (registerErrorLogCallback (engine_returning SQLITE_MISUSE) (recorder 1) (world0 () [])) = ()
   \<and> registerErrorLogCallback (engine_returning SQLITE_MISUSE) (recorder 1) (world0 () []) =
     registerErrorLogCallback (engine_returning SQLITE_OK) (recorder 1) (world0 () [])"
  by (simp add: registerErrorLogCallback_def call_sqlite3_config_def engine_returning_def
      SQLITE_MISUSE_def SQLITE_OK_def world0_def)

subsection \<open>Registering more than once\<close>

lemma register_each_calls:
  "engine_calls (register_each cfg cs w) =
     engine_calls w @ map (\<lambda>c. (SQLITE_CONFIG_LOG, [FnPtr c, IntVal 0])) cs"
proof (induction cs arbitrary: w)
  case Nil
  show ?case by simp
next
  case (Cons c cs)
  have "engine_calls (snd (registerErrorLogCallback cfg c w)) =
          engine_calls w @ [(SQLITE_CONFIG_LOG, [FnPtr c, IntVal 0])]"
    by (simp add: registerErrorLogCallback_def call_sqlite3_config_def split: prod.split)
  with Cons.IH [of "snd (registerErrorLogCallback cfg c w)"] show ?case by simp
qed

lemma sim_register_engine:
  "engine (snd (registerErrorLogCallback (without_callbacks sim_config) c w)) =
     (if isInit (engine w) then engine w else (engine w)\<lparr>xLog := c, pLogArg := 0\<rparr>)"
  by (simp add: registerErrorLogCallback_def call_sqlite3_config_def without_callbacks_def
      sim_config_def split: prod.split)

lemma sim_register_each_engine:
  "isInit (engine (register_each (without_callbacks sim_config) cs w)) = isInit (engine w)
   \<and> xLog (engine (register_each (without_callbacks sim_config) cs w)) =
       (if isInit (engine w) \<or> cs = [] then xLog (engine w) else last cs)"
proof (induction cs arbitrary: w)
  case Nil
  show ?case by simp
next
  case (Cons c cs)
  let ?w = "snd (registerErrorLogCallback (without_callbacks sim_config) c w)"
  have e: "engine ?w = (if isInit (engine w) then engine w else (engine w)\<lparr>xLog := c, pLogArg := 0\<rparr>)"
    by (rule sim_register_engine)
  then have i: "isInit (engine ?w) = isInit (engine w)" by simp
  from e have x: "xLog (engine ?w) = (if isInit (engine w) then xLog (engine w) else c)" by simp
  from Cons.IH [of ?w] i x show ?case by simp
qed

text \<open>
  C3, as the code has it. \<open>registerErrorLogCallback\<close> issues no handle and keeps no
  registration state: in every sequence of calls each call, also one made while an
  earlier callback is registered, is forwarded to \<open>sqlite3_config\<close> with its own
  callback, and none fails. What becomes of the earlier registration is the engine's
  business. In the simulated engine, which holds a single callback: while it is not
  initialised, the callback of the last call is the one registered afterwards; once it
  is initialised, it refuses every call and the callback it held before stays.
\<close>

theorem every_registration_forwarded:
  "engine_calls (register_each cfg cs w) =
     engine_calls w @ map (\<lambda>c. (SQLITE_CONFIG_LOG, [FnPtr c, IntVal 0])) cs
   \<and> xLog (engine (register_each (without_callbacks sim_config) ds v)) =
       (if isInit (engine v) \<or> ds = [] then xLog (engine v) else last ds)"
  using register_each_calls sim_register_each_engine by blast

text \<open>Four registrations in a row, the third with the null pointer: on the fresh
  simulated engine, and on an initialised one that holds callback 7.\<close>

theorem every_registration_forwarded_witness:
  "xLog (engine (register_each (without_callbacks sim_config)
                   [recorder 1, recorder 2, NULL, recorder 3] (world0 sim_engine0 []))) = recorder 3
   \<and> xLog (engine (register_each (without_callbacks sim_config)
                   [recorder 1, recorder 2, NULL, recorder 3]
                   (world0 \<lparr>isInit = True, xLog = recorder 7, pLogArg = 0\<rparr> []))) = recorder 7
   \<and> engine_calls (register_each (without_callbacks sim_config)
                   [recorder 1, recorder 2, NULL, recorder 3]
                   (world0 \<lparr>isInit = True, xLog = recorder 7, pLogArg = 0\<rparr> [])) =
       [(SQLITE_CONFIG_LOG, [FnPtr (recorder 1), IntVal 0]),
        (SQLITE_CONFIG_LOG, [FnPtr (recorder 2), IntVal 0]),
        (SQLITE_CONFIG_LOG, [FnPtr NULL, IntVal 0]),
        (SQLITE_CONFIG_LOG, [FnPtr (recorder 3), IntVal 0])]"
  using every_registration_forwarded
    [of "without_callbacks sim_config" "[recorder 1, recorder 2, NULL, recorder 3]"
        "world0 \<lparr>isInit = True, xLog = recorder 7, pLogArg = 0\<rparr> []"
        "[recorder 1, recorder 2, NULL, recorder 3]" "world0 sim_engine0 []"]
    every_registration_forwarded
    [of "without_callbacks sim_config" "[]"
        "world0 \<lparr>isInit = True, xLog = recorder 7, pLogArg = 0\<rparr> []"
        "[recorder 1, recorder 2, NULL, recorder 3]"
        "world0 \<lparr>isInit = True, xLog = recorder 7, pLogArg = 0\<rparr> []"]
  by (simp add: world0_def sim_engine0_def)

text \<open>
  C3 as stated fails: a second registration made while the first callback is registered
  is a second call into the engine, the engine accepts it, and the second callback has
  silently replaced the first: a log event now reaches callback 2 only.
\<close>

theorem second_registration_replaces_first:
  "engine_calls (register_each (without_callbacks sim_config) [recorder 1, recorder 2]
                   (world0 sim_engine0 [])) =
     [(SQLITE_CONFIG_LOG, [FnPtr (recorder 1), IntVal 0]),
      (SQLITE_CONFIG_LOG, [FnPtr (recorder 2), IntVal 0])]
   \<and> xLog (engine (register_each (without_callbacks sim_config) [recorder 1]
                      (world0 sim_engine0 []))) = recorder 1
   \<and> fst (sim_config SQLITE_CONFIG_LOG [FnPtr (recorder 2), IntVal 0]
            (engine (register_each (without_callbacks sim_config) [recorder 1]
                       (world0 sim_engine0 [])))) = SQLITE_OK
   \<and> fst (registerErrorLogCallback (without_callbacks sim_config) (recorder 2)
            (register_each (without_callbacks sim_config) [recorder 1] (world0 sim_engine0 []))) = ()
   \<and> xLog (engine (register_each (without_callbacks sim_config) [recorder 1, recorder 2]
                      (world0 sim_engine0 []))) = recorder 2
   \<and> fold run_invocation
        (sim_log (engine (register_each (without_callbacks sim_config) [recorder 1, recorder 2]
                            (world0 sim_engine0 [])))
           14 (c_str ''disk I/O error'')) [] = [(2, 0, 14, c_str ''disk I/O error'')]"
  by (simp add: registerErrorLogCallback_def call_sqlite3_config_def without_callbacks_def
      sim_config_def world0_def sim_engine0_def sim_log_def recorder_def run_invocation_def)

subsection \<open>Delivery of a log event\<close>

text \<open>
  C5. After a registration of the callback \<open>H\<close> that the simulated engine accepted, a log
  event with code 14 and message "disk I/O error" makes the engine invoke exactly one
  function, \<open>H\<close> itself, with the context 0 that the shim registered, the code 14 and the
  message "disk I/O error"; the host's state afterwards is what that one call of \<open>H\<close>
  leaves.
\<close>

theorem registered_callback_receives_event:
  assumes "fst (sim_config SQLITE_CONFIG_LOG [FnPtr (Callback H), IntVal 0] (engine w)) = SQLITE_OK"
  shows "sim_log (engine (snd (registerErrorLogCallback (without_callbacks sim_config) (Callback H) w)))
           14 (c_str ''disk I/O error'') =
         [\<lparr>callee = H, pArg = 0, iErrCode = 14, zMsg = c_str ''disk I/O error''\<rparr>]
       \<and> fold run_invocation
           (sim_log (engine (snd (registerErrorLogCallback (without_callbacks sim_config) (Callback H) w)))
              14 (c_str ''disk I/O error'')) h = H 0 14 (c_str ''disk I/O error'') h"
proof -
  from assms have "\<not> isInit (engine w)"
    by (auto simp: sim_config_def SQLITE_MISUSE_def SQLITE_OK_def split: if_splits)
  with sim_register_engine [of "Callback H" w]
  have "engine (snd (registerErrorLogCallback (without_callbacks sim_config) (Callback H) w)) =
               (engine w)\<lparr>xLog := Callback H, pLogArg := 0\<rparr>"
    by simp
  then show ?thesis by (simp add: sim_log_def run_invocation_def)
qed

text \<open>A callback that writes down its three arguments, on the fresh simulated engine.\<close>

theorem registered_callback_receives_event_witness:
  "fst (sim_config SQLITE_CONFIG_LOG [FnPtr (Callback (\<lambda>a c m h. h @ [(a, c, m)])), IntVal 0]
          (engine (world0 sim_engine0 []))) = SQLITE_OK
   \<and> fold run_invocation
        (sim_log (engine (snd (registerErrorLogCallback (without_callbacks sim_config)
                                 (Callback (\<lambda>a c m h. h @ [(a, c, m)])) (world0 sim_engine0 []))))
           14 (c_str ''disk I/O error'')) [] = [(0, 14, ''disk I/O error'' @ [NUL])]"
  using registered_callback_receives_event
    [of "\<lambda>a c m h. h @ [(a, c, m)]" "world0 sim_engine0 []" "[]"]
  by (simp add: sim_config_def world0_def sim_engine0_def c_str_def sim_log_def run_invocation_def
      registerErrorLogCallback_def call_sqlite3_config_def without_callbacks_def)

subsection \<open>The callback type\<close>

text \<open>
  C9. The one parameter of \<open>registerErrorLogCallback\<close> has the type \<open>errorLogCallback\<close>,
  a pointer to a function of exactly three parameters, a pointer, an \<open>int\<close> and a
  pointer, that returns \<open>void\<close>: the signature that the ABI of the logging configuration
  key asks for.
\<close>

theorem errorLogCallback_matches_abi:
  "parameters registerErrorLogCallback_signature = [errorLogCallback_type]
   \<and> function_pointer_abi errorLogCallback_type = Some log_callback_abi
   \<and> abi_parameters log_callback_abi = [Abi_pointer, Abi_int, Abi_pointer]
   \<and> abi_result log_callback_abi = Abi_void"
  by (simp add: registerErrorLogCallback_signature_def errorLogCallback_type_def log_callback_abi_def)

subsection \<open>No validation of the argument\<close>

text \<open>
  C10. \<open>registerErrorLogCallback\<close> does not look at its argument: for every callback
  value it returns normally after the one call of \<open>sqlite3_config\<close> with that value, and
  for the null function pointer the engine is called with the null pointer like with
  any other.
\<close>

theorem registerErrorLogCallback_forwards_null:
  "(\<forall>c. registerErrorLogCallback cfg c w =
          ((), snd (call_sqlite3_config cfg SQLITE_CONFIG_LOG [FnPtr c, IntVal 0] w)))
   \<and> engine_calls (snd (registerErrorLogCallback cfg NULL w)) =
       engine_calls w @ [(SQLITE_CONFIG_LOG, [FnPtr NULL, IntVal 0])]"
  by (simp add: registerErrorLogCallback_def call_sqlite3_config_def split: prod.split)

section \<open>Properties of the bridge\<close>

subsection \<open>The native call of \<open>register\<close>\<close>

text \<open>Where \<open>register\<close> reaches the engine, it makes the call that the shim makes for the
  trampoline.\<close>

lemma register_calls_like_shim:
  "handler_slot (host w) = None \<Longrightarrow>
   engine_calls (snd (register cfg handler w)) =
     engine_calls (snd (registerErrorLogCallback (without_callbacks cfg) trampoline w))
   \<and> engine (snd (register cfg handler w)) =
       engine (snd (registerErrorLogCallback (without_callbacks cfg) trampoline w))"
  by (simp add: register_def registerErrorLogCallback_def call_sqlite3_config_def without_callbacks_def split: prod.split)

lemma register_success:
  assumes "register cfg handler w = (Inr k, w1)"
  shows "handler_slot (host w1) = Some (k, handler) \<and> handles_issued (host w1) = Suc k"
  using assms
  by (auto simp: register_def call_sqlite3_config_def without_callbacks_def split: option.splits prod.splits if_splits)

subsection \<open>The trampoline\<close>

lemma copy_c_string_up_to_NUL:
  "NUL \<notin> set s \<Longrightarrow> copy_c_string (s @ NUL # rest) = s"
  by (induction s) auto

lemma trampolineEntry_empty_slot:
  "handler_slot p = None \<Longrightarrow> trampolineEntry c m p = Returned p"
  by (simp add: trampolineEntry_def deliver_def)

lemma trampolineEntry_keeps_slot:
  "handler_slot (state_of (trampolineEntry c m p)) = handler_slot p
   \<and> handles_issued (state_of (trampolineEntry c m p)) = handles_issued p"
  by (simp add: trampolineEntry_def deliver_def split: option.split prod.split completion.split)

lemma invoke_each_empty_slot:
  "handler_slot p = None \<Longrightarrow> invoke_each evs p = map (\<lambda>ev. Returned p) evs"
  by (induction evs) (auto simp: trampolineEntry_empty_slot)

text \<open>While the slot is empty a call of the trampoline changes nothing in the host: an
  engine that ran the trampoline during the configuration call of \<open>register\<close> would act
  like one that makes no callback.\<close>

lemma trampoline_idle_on_empty_slot:
  "handler_slot p = None \<Longrightarrow>
   (case trampoline of NULL \<Rightarrow> p | Callback f \<Rightarrow> f a c m p) = p"
  by (simp add: trampoline_def trampolineEntry_empty_slot)

text \<open>The simulated engine, once \<open>register\<close> has been accepted, answers a log event by one
  call of the trampoline, which is \<open>trampolineEntry\<close> on the host's state.\<close>

lemma sim_engine_invokes_trampoline:
  assumes "register sim_config handler w = (Inr k, w1)"
  shows "map (\<lambda>i. run_invocation i (host w1)) (sim_log (engine w1) c m) =
           [state_of (trampolineEntry c m (host w1))]"
  using assms
  by (auto simp: register_def call_sqlite3_config_def without_callbacks_def sim_config_def sim_log_def trampoline_def
      run_invocation_def SQLITE_MISUSE_def SQLITE_OK_def split: option.splits prod.splits if_splits)

subsection \<open>Handles over a run of the bridge\<close>

lemma live_step:
  assumes "handler_slot (host w) = Some (k, handler)" and "handles_issued (host w) = n"
      and "x \<noteq> Unregister k"
  shows "handler_slot (host (bridge_step cfg x w)) = Some (k, handler)
       \<and> handles_issued (host (bridge_step cfg x w)) = n"
proof (cases x)
  case (Register h)
  with assms show ?thesis by (simp add: register_def)
next
  case (Unregister l)
  with assms show ?thesis by (auto simp: unregister_def)
next
  case (Invoke c m)
  with assms trampolineEntry_keeps_slot [of c m "host w"] show ?thesis by simp
qed

lemma live_run:
  "handler_slot (host w) = Some (k, handler) \<Longrightarrow> handles_issued (host w) = n \<Longrightarrow>
   Unregister k \<notin> set xs \<Longrightarrow>
   handler_slot (host (bridge_run cfg xs w)) = Some (k, handler)
     \<and> handles_issued (host (bridge_run cfg xs w)) = n"
proof (induction xs arbitrary: w)
  case Nil
  then show ?case by simp
next
  case (Cons x xs)
  from Cons.prems have "x \<noteq> Unregister k" by auto
  from live_step [OF Cons.prems(1,2) this, of cfg] Cons.prems(3) Cons.IH [of "bridge_step cfg x w"]
  show ?case by simp
qed

lemma retired_step: "retired k (host w) \<Longrightarrow> retired k (host (bridge_step cfg x w))"
proof (cases x)
  case (Register handler)
  assume "retired k (host w)"
  then show ?thesis using Register
    by (auto simp: retired_def register_def call_sqlite3_config_def without_callbacks_def split: option.splits prod.splits)
next
  case (Unregister l)
  assume "retired k (host w)"
  then show ?thesis using Unregister
    by (auto simp: retired_def unregister_def split: option.splits prod.splits)
next
  case (Invoke c m)
  assume "retired k (host w)"
  then show ?thesis using Invoke trampolineEntry_keeps_slot [of c m "host w"]
    by (simp add: retired_def)
qed

lemma retired_run: "retired k (host w) \<Longrightarrow> retired k (host (bridge_run cfg xs w))"
  by (induction xs arbitrary: w) (auto intro: retired_step)

lemma retired_unregister: "retired k (host w) \<Longrightarrow> unregister k w = (Inl AlreadyUnregistered, w)"
  by (auto simp: retired_def unregister_def split: option.splits)

lemma retired_step_calls:
  assumes "retired k (host w)"
  shows "calls_for k (host (bridge_step cfg x w)) = calls_for k (host w)"
proof (cases x)
  case (Register h)
  then show ?thesis
    by (auto simp: calls_for_def register_def call_sqlite3_config_def without_callbacks_def split: option.splits prod.splits)
next
  case (Unregister l)
  then show ?thesis
    by (auto simp: calls_for_def unregister_def split: option.splits)
next
  case (Invoke c m)
  with assms show ?thesis
    by (auto simp: calls_for_def retired_def trampolineEntry_def deliver_def
        split: option.splits completion.splits)
qed

lemma retired_run_calls:
  "retired k (host w) \<Longrightarrow> calls_for k (host (bridge_run cfg xs w)) = calls_for k (host w)"
proof (induction xs arbitrary: w)
  case Nil
  show ?case by simp
next
  case (Cons x xs)
  from Cons.prems have "retired k (host (bridge_step cfg x w))" by (rule retired_step)
  from Cons.IH [OF this] retired_step_calls [OF Cons.prems, of cfg x] show ?case by simp
qed

lemma handles_ok_step: "handles_ok (host w) \<Longrightarrow> handles_ok (host (bridge_step cfg x w))"
proof (cases x)
  case (Register h)
  assume "handles_ok (host w)"
  with Register show ?thesis
    by (auto simp: handles_ok_def register_def call_sqlite3_config_def without_callbacks_def split: option.splits prod.splits)
next
  case (Unregister l)
  assume "handles_ok (host w)"
  with Unregister show ?thesis
    by (auto simp: handles_ok_def unregister_def split: option.splits)
next
  case (Invoke c m)
  assume "handles_ok (host w)"
  with Invoke trampolineEntry_keeps_slot [of c m "host w"] show ?thesis
    by (auto simp: handles_ok_def split: option.splits)
qed

lemma handles_ok_run: "handles_ok (host w) \<Longrightarrow> handles_ok (host (bridge_run cfg xs w))"
  by (induction xs arbitrary: w) (auto intro: handles_ok_step)

lemma handles_ok_process0: "handles_ok (process0 u)"
  by (simp add: handles_ok_def process0_def)

subsection \<open>Unregistering twice\<close>

text \<open>
  C4. Let \<open>register\<close> succeed with the handle \<open>k\<close>. Whatever happens next, as long as it is
  not an \<open>unregister\<close> of \<open>k\<close>, the first \<open>unregister\<close> of \<open>k\<close> succeeds. Whatever happens
  after that, registrations of new handlers included, an \<open>unregister\<close> of \<open>k\<close> fails with
  \<open>AlreadyUnregistered\<close> and leaves the world as it was: no call into the engine is made.
\<close>

theorem second_unregister_fails:
  assumes reg: "register cfg handler w = (Inr k, w1)"
      and pre: "Unregister k \<notin> set before"
      and w2: "w2 = bridge_run cfg before w1"
      and w3: "w3 = bridge_run cfg after (snd (unregister k w2))"
  shows "fst (unregister k w2) = Inr ()
       \<and> unregister k w3 = (Inl AlreadyUnregistered, w3)
       \<and> engine_calls (snd (unregister k w3)) = engine_calls w3"
proof -
  from register_success [OF reg]
  have "handler_slot (host w1) = Some (k, handler)" and "handles_issued (host w1) = Suc k"
    by simp_all
  from live_run [OF this pre, of cfg] w2
  have s: "handler_slot (host w2) = Some (k, handler)" and n: "handles_issued (host w2) = Suc k"
    by simp_all
  from s have first: "unregister k w2 = (Inr (), w2\<lparr>host := (host w2)\<lparr>handler_slot := None\<rparr>\<rparr>)"
    by (simp add: unregister_def)
  with n have "retired k (host (snd (unregister k w2)))"
    by (simp add: retired_def)
  then have "retired k (host w3)"
    unfolding w3 by (rule retired_run)
  then have "unregister k w3 = (Inl AlreadyUnregistered, w3)"
    by (rule retired_unregister)
  with first show ?thesis by simp
qed

text \<open>On the simulated engine: a registration, an event, two refused operations, the
  first \<open>unregister\<close>, a new registration and an event, the second \<open>unregister\<close>.\<close>

theorem second_unregister_fails_witness:
  "register sim_config (failing_on 7) (world0 sim_engine0 (process0 [])) =
     (Inr 0, snd (register sim_config (failing_on 7) (world0 sim_engine0 (process0 []))))
   \<and> Unregister 0 \<notin> set [Invoke 14 (c_str ''disk I/O error''), Register (failing_on 14), Unregister 1]
   \<and> fst (unregister 0
       (bridge_run sim_config [Invoke 14 (c_str ''disk I/O error''), Register (failing_on 14), Unregister 1]
          (snd (register sim_config (failing_on 7) (world0 sim_engine0 (process0 [])))))) = Inr ()
   \<and> fst (unregister 0
       (bridge_run sim_config [Register (failing_on 14), Invoke 7 (c_str ''again'')]
          (snd (unregister 0
             (bridge_run sim_config
                [Invoke 14 (c_str ''disk I/O error''), Register (failing_on 14), Unregister 1]
                (snd (register sim_config (failing_on 7) (world0 sim_engine0 (process0 []))))))))) =
       Inl AlreadyUnregistered"
proof -
  have r: "register sim_config (failing_on 7) (world0 sim_engine0 (process0 [])) =
     (Inr 0, snd (register sim_config (failing_on 7) (world0 sim_engine0 (process0 []))))"
    by (simp add: register_def call_sqlite3_config_def without_callbacks_def sim_config_def world0_def sim_engine0_def
        process0_def SQLITE_OK_def)
  have p: "Unregister 0 \<notin>
      set [Invoke 14 (c_str ''disk I/O error''), Register (failing_on 14), Unregister 1]"
    by simp
  from second_unregister_fails
         [OF r p refl refl, of "[Register (failing_on 14), Invoke 7 (c_str ''again'')]"] r p
  show ?thesis by simp
qed

subsection \<open>A handler that raises\<close>

text \<open>
  C6. When the registered handler raises on the event, \<open>trampolineEntry\<close> still returns
  to the engine: the handler's invocation is on record, the state is the one the handler
  reached, and the failure is reported as one \<open>HandlerPanic\<close> added to the diagnostic
  sink, nowhere else. And whatever the handler, the event and the state, \<open>trampolineEntry\<close>
  is never left by a raised failure.
\<close>

theorem handler_failure_caught:
  assumes "handler_slot p = Some (k, handler)"
      and "handler \<lparr>code = c, message = copy_c_string m\<rparr> (user p) = Raised u"
  shows "trampolineEntry c m p =
           Returned (p\<lparr>handler_calls := handler_calls p @ [(k, \<lparr>code = c, message = copy_c_string m\<rparr>)],
                       user := u,
                       diagnostic_sink := diagnostic_sink p @ [HandlerPanic]\<rparr>)
       \<and> trampolineEntry c' m' q \<noteq> Raised q'"
proof -
  from assms have "trampolineEntry c m p =
           Returned (p\<lparr>handler_calls := handler_calls p @ [(k, \<lparr>code = c, message = copy_c_string m\<rparr>)],
                       user := u,
                       diagnostic_sink := diagnostic_sink p @ [HandlerPanic]\<rparr>)"
    by (simp add: trampolineEntry_def deliver_def)
  moreover have "trampolineEntry c' m' q \<noteq> Raised q'"
    by (simp add: trampolineEntry_def split: completion.split)
  ultimately show ?thesis by simp
qed

text \<open>The handler that fails on code 14, registered on the simulated engine, and an event
  with code 14.\<close>

theorem handler_failure_caught_witness:
  "handler_slot (host (snd (register sim_config (failing_on 14) (world0 sim_engine0 (process0 []))))) =
     Some (0, failing_on 14)
   \<and> failing_on 14 \<lparr>code = 14, message = copy_c_string (c_str ''disk I/O error'')\<rparr> [] = Raised []
   \<and> trampolineEntry 14 (c_str ''disk I/O error'')
       (host (snd (register sim_config (failing_on 14) (world0 sim_engine0 (process0 []))))) =
     Returned \<lparr>handler_slot = Some (0, failing_on 14), handles_issued = 1,
               handler_calls = [(0, \<lparr>code = 14, message = ''disk I/O error''\<rparr>)],
               diagnostic_sink = [HandlerPanic], user = []\<rparr>"
proof -
  have h: "host (snd (register sim_config (failing_on 14) (world0 sim_engine0 (process0 [])))) =
      \<lparr>handler_slot = Some (0, failing_on 14), handles_issued = 1,
               handler_calls = [], diagnostic_sink = [], user = []\<rparr>"
    by (simp add: register_def call_sqlite3_config_def without_callbacks_def sim_config_def world0_def sim_engine0_def
        process0_def SQLITE_OK_def)
  have m: "copy_c_string (c_str ''disk I/O error'') = ''disk I/O error''"
    by (simp add: c_str_def NUL_def)
  have f: "failing_on 14 \<lparr>code = 14, message = ''disk I/O error''\<rparr> [] = Raised []"
    by (simp add: failing_on_def)
  from handler_failure_caught
    [of "host (snd (register sim_config (failing_on 14) (world0 sim_engine0 (process0 []))))"
        0 "failing_on 14" 14 "c_str ''disk I/O error''" "[]"]
  show ?thesis by (auto simp: h m f)
qed

subsection \<open>After \<open>unregister\<close>\<close>

text \<open>
  C7. Once \<open>unregister\<close> of the handle \<open>k\<close> has succeeded, every trampoline invocation that
  follows, however many, returns normally and leaves the process as it is: no handler
  call is made, nothing is reported, the event is dropped. And however the bridge is used
  afterwards, new registrations included, no handler call is ever again made under the
  handle \<open>k\<close>.
\<close>

theorem no_handler_calls_after_unregister:
  assumes ok: "handles_ok (host w)" and un: "unregister k w = (Inr (), w')"
  shows "invoke_each evs (host w') = map (\<lambda>ev. Returned (host w')) evs
       \<and> calls_for k (host (bridge_run cfg ops w')) = calls_for k (host w')"
proof -
  from un have e: "handler_slot (host w') = None"
    by (auto simp: unregister_def split: option.splits if_splits)
  from un ok have "k < handles_issued (host w')"
    by (auto simp: unregister_def handles_ok_def split: option.splits if_splits)
  with e have "retired k (host w')" by (simp add: retired_def)
  then have "calls_for k (host (bridge_run cfg ops w')) = calls_for k (host w')"
    by (rule retired_run_calls)
  with invoke_each_empty_slot [OF e, of evs] show ?thesis by simp
qed

text \<open>On the simulated engine: register, unregister, then two events; and then a new
  registration and an event.\<close>

theorem no_handler_calls_after_unregister_witness:
  "handles_ok (host (snd (register sim_config (failing_on 7) (world0 sim_engine0 (process0 [])))))
   \<and> unregister 0 (snd (register sim_config (failing_on 7) (world0 sim_engine0 (process0 [])))) =
     (Inr (), world0 (sim_engine0\<lparr>xLog := trampoline\<rparr>) ((process0 [])\<lparr>handles_issued := 1\<rparr>)
                \<lparr>engine_calls := [(SQLITE_CONFIG_LOG, [FnPtr trampoline, IntVal 0])]\<rparr>)
   \<and> invoke_each [(14, c_str ''disk I/O error''), (7, c_str ''again'')]
       ((process0 ([]::string list))\<lparr>handles_issued := 1\<rparr>) =
     [Returned ((process0 [])\<lparr>handles_issued := 1\<rparr>), Returned ((process0 [])\<lparr>handles_issued := 1\<rparr>)]
   \<and> calls_for 0 (host (bridge_run sim_config [Register (failing_on 14), Invoke 7 (c_str ''again'')]
        (world0 (sim_engine0\<lparr>xLog := trampoline\<rparr>) ((process0 [])\<lparr>handles_issued := 1\<rparr>)
                \<lparr>engine_calls := [(SQLITE_CONFIG_LOG, [FnPtr trampoline, IntVal 0])]\<rparr>))) = []"
proof -
  have u: "unregister 0 (snd (register sim_config (failing_on 7) (world0 sim_engine0 (process0 [])))) =
     (Inr (), world0 (sim_engine0\<lparr>xLog := trampoline\<rparr>) ((process0 [])\<lparr>handles_issued := 1\<rparr>)
                \<lparr>engine_calls := [(SQLITE_CONFIG_LOG, [FnPtr trampoline, IntVal 0])]\<rparr>)"
    by (simp add: unregister_def register_def call_sqlite3_config_def without_callbacks_def sim_config_def world0_def
        sim_engine0_def process0_def SQLITE_OK_def)
  have k: "handles_ok (host (snd (register sim_config (failing_on 7) (world0 sim_engine0 (process0 [])))))"
    by (simp add: handles_ok_def register_def call_sqlite3_config_def without_callbacks_def sim_config_def world0_def
        sim_engine0_def process0_def SQLITE_OK_def)
  have c: "calls_for 0 (host (world0 (sim_engine0\<lparr>xLog := trampoline\<rparr>)
             ((process0 ([]::string list))\<lparr>handles_issued := 1\<rparr>)
                \<lparr>engine_calls := [(SQLITE_CONFIG_LOG, [FnPtr trampoline, IntVal 0])]\<rparr>)) = []"
    by (simp add: calls_for_def world0_def process0_def)
  from no_handler_calls_after_unregister
         [where evs = "[(14, c_str ''disk I/O error''), (7, c_str ''again'')]" and cfg = sim_config
            and ops = "[Register (failing_on 14), Invoke 7 (c_str ''again'')]", OF k u] u k c
  show ?thesis by (auto simp: world0_def)
qed

subsection \<open>The copy of the message\<close>

text \<open>
  C8. For every message text \<open>s\<close>, of any length, that the engine passes as a C string
  (the text, the terminating NUL, and anything behind it), the copy is \<open>s\<close> character for
  character, and the registered handler is invoked with the event that carries the code
  and exactly \<open>s\<close> as its message.
\<close>

theorem message_copied_intact:
  assumes "NUL \<notin> set s" and "handler_slot p = Some (k, handler)"
  shows "copy_c_string (s @ NUL # rest) = s
       \<and> handler_calls (state_of (trampolineEntry c (s @ NUL # rest) p)) =
           handler_calls p @ [(k, \<lparr>code = c, message = s\<rparr>)]
       \<and> user (state_of (trampolineEntry c (s @ NUL # rest) p)) =
           state_of (handler \<lparr>code = c, message = s\<rparr> (user p))"
  using assms copy_c_string_up_to_NUL [of s rest]
  by (simp add: trampolineEntry_def deliver_def split: completion.split)

text \<open>A message of 10,000 characters.\<close>

theorem message_copied_intact_witness:
  "NUL \<notin> set (replicate 10000 CHR ''x'')
   \<and> handler_slot ((process0 [])\<lparr>handler_slot := Some (0, failing_on 7)\<rparr>) = Some (0, failing_on 7)
   \<and> length (replicate 10000 CHR ''x'') = 10000
   \<and> copy_c_string (replicate 10000 CHR ''x'' @ NUL # ''tail'') = replicate 10000 CHR ''x''
   \<and> handler_calls (state_of (trampolineEntry 14 (replicate 10000 CHR ''x'' @ NUL # ''tail'')
                      ((process0 [])\<lparr>handler_slot := Some (0, failing_on 7)\<rparr>))) =
       [(0, \<lparr>code = 14, message = replicate 10000 CHR ''x''\<rparr>)]
   \<and> user (state_of (trampolineEntry 14 (replicate 10000 CHR ''x'' @ NUL # ''tail'')
                      ((process0 [])\<lparr>handler_slot := Some (0, failing_on 7)\<rparr>))) =
       [replicate 10000 CHR ''x'']"
  using message_copied_intact
    [of "replicate 10000 CHR ''x''" "(process0 [])\<lparr>handler_slot := Some (0, failing_on 7)\<rparr>"
        0 "failing_on 7" "''tail''" 14]
  by (simp add: NUL_def process0_def failing_on_def)

end
